theory Spec2Isabelle
  imports Main
begin

section \<open>ECMAScript values used by the node modal\<close>

text \<open>
  The program is \<^verbatim>\<open>src/features/modals/NodeModal/index.tsx\<close>. Its pure kernel is
  \<^verbatim>\<open>normalizeNodeData\<close>, \<^verbatim>\<open>convertValueByType\<close> and the body of \<^verbatim>\<open>handleSave\<close>; they
  run on the values of the ECMAScript runtime (\<^verbatim>\<open>JSON.parse\<close>, \<^verbatim>\<open>JSON.stringify\<close>,
  \<^verbatim>\<open>Number\<close>, \<^verbatim>\<open>String\<close>, property reads, writes and deletes), which are embedded first.

  Scope of the embedding of the runtime:
  \<^item> a string is a list of 8-bit characters, read as the code units U+0000 to U+00FF;
  \<^item> a finite number is kept as a decimal \<open>m * 10 ^ e\<close> with \<open>m\<close> not divisible by ten
    (zero is \<open>Dec 0 0\<close>). It is the number the engine holds whenever the literal has at
    most 15 significant digits and lies in the range of a double; the rounding of
    longer literals to 53 bits and the sign of zero are not represented;
  \<^item> property reads, writes and deletes act on own properties; names inherited from a
    prototype (\<^verbatim>\<open>__proto__\<close>, \<^verbatim>\<open>constructor\<close>, \<^verbatim>\<open>toString\<close>, ...) are taken not to occur as
    keys or path segments;
  \<^item> the module is an ES module, hence strict-mode code: a property write on a
    primitive and the delete of a non-configurable property throw \<^verbatim>\<open>TypeError\<close>.
\<close>

subsection \<open>Characters\<close>

definition code_unit :: "char \<Rightarrow> nat" where
  "code_unit c = of_char c"

definition nl :: char where
  "nl = CHR 0x0A"

definition dq :: char where
  "dq = CHR 0x22"

definition bs :: char where
  "bs = CHR 0x5C"

definition is_digit :: "char \<Rightarrow> bool" where
  "is_digit c \<longleftrightarrow> 48 \<le> code_unit c \<and> code_unit c \<le> 57"

definition digit_char :: "nat \<Rightarrow> char" where
  "digit_char d = ''0123456789'' ! d"

text \<open>The value of a digit in any radix up to sixteen (\<^verbatim>\<open>0-9\<close>, \<^verbatim>\<open>a-f\<close>, \<^verbatim>\<open>A-F\<close>).\<close>

definition hex_val :: "char \<Rightarrow> nat option" where
  "hex_val c =
     (let u = code_unit c in
      if 48 \<le> u \<and> u \<le> 57 then Some (u - 48)
      else if 97 \<le> u \<and> u \<le> 102 then Some (u - 87)
      else if 65 \<le> u \<and> u \<le> 70 then Some (u - 55)
      else None)"

definition is_radix_digit :: "nat \<Rightarrow> char \<Rightarrow> bool" where
  "is_radix_digit b c = (case hex_val c of None \<Rightarrow> False | Some d \<Rightarrow> d < b)"

definition nat_of_digits :: "nat \<Rightarrow> string \<Rightarrow> nat" where
  "nat_of_digits b ds = foldl (\<lambda>a c. a * b + (case hex_val c of None \<Rightarrow> 0 | Some d \<Rightarrow> d)) 0 ds"

fun digits :: "nat \<Rightarrow> string" where
  "digits n = (if n < 10 then [digit_char n] else digits (n div 10) @ [digit_char (n mod 10)])"

declare digits.simps [simp del]

fun join :: "'a list \<Rightarrow> 'a list list \<Rightarrow> 'a list" where
  "join sep [] = []"
| "join sep [x] = x"
| "join sep (x # y # ys) = x @ sep @ join sep (y # ys)"

subsection \<open>Numbers\<close>

datatype jsnum = NaN | PosInf | NegInf | Dec int int

function norm_dec :: "int \<Rightarrow> int \<Rightarrow> int \<times> int" where
  "norm_dec m e =
     (if m = 0 then (0, 0)
      else if m mod 10 = 0 then norm_dec (m div 10) (e + 1)
      else (m, e))"
  by pat_completeness auto
termination
  by (relation "measure (\<lambda>(m, e). nat \<bar>m\<bar>)") auto

declare norm_dec.simps [simp del]

definition mk_dec :: "int \<Rightarrow> int \<Rightarrow> jsnum" where
  "mk_dec m e = (case norm_dec m e of (m', e') \<Rightarrow> Dec m' e')"

definition is_finite :: "jsnum \<Rightarrow> bool" where
  "is_finite n = (case n of Dec m e \<Rightarrow> True | _ \<Rightarrow> False)"

definition is_zero :: "jsnum \<Rightarrow> bool" where
  "is_zero n = (case n of Dec m e \<Rightarrow> m = 0 | _ \<Rightarrow> False)"

text \<open>\<^verbatim>\<open>Number.isNaN\<close>.\<close>

definition Number_isNaN :: "jsnum \<Rightarrow> bool" where
  "Number_isNaN n \<longleftrightarrow> n = NaN"

text \<open>
  \<^verbatim>\<open>Number::toString\<close> (radix 10) on the digits \<open>ds\<close> of the significand and the
  position \<open>n\<close> of the decimal point, the five layouts of the language definition.
\<close>

definition layout :: "string \<Rightarrow> int \<Rightarrow> string" where
  "layout ds n =
     (let k = int (length ds) in
      if k \<le> n \<and> n \<le> 21 then ds @ replicate (nat (n - k)) (CHR ''0'')
      else if 0 < n \<and> n \<le> 21 then take (nat n) ds @ ''.'' @ drop (nat n) ds
      else if - 6 < n \<and> n \<le> 0 then ''0.'' @ replicate (nat (- n)) (CHR ''0'') @ ds
      else (let x = n - 1;
                ex = (if x < 0 then ''-'' else ''+'') @ digits (nat \<bar>x\<bar>)
            in if k = 1 then ds @ ''e'' @ ex
               else take 1 ds @ ''.'' @ drop 1 ds @ ''e'' @ ex))"

definition Number_toString :: "jsnum \<Rightarrow> string" where
  "Number_toString x =
     (case x of
        NaN \<Rightarrow> ''NaN''
      | PosInf \<Rightarrow> ''Infinity''
      | NegInf \<Rightarrow> ''-Infinity''
      | Dec m e \<Rightarrow>
          (case norm_dec m e of (m', e') \<Rightarrow>
             if m' = 0 then ''0''
             else (let ds = digits (nat \<bar>m'\<bar>)
                   in (if m' < 0 then ''-'' else '''') @ layout ds (int (length ds) + e'))))"

text \<open>
  \<^verbatim>\<open>Number(value)\<close> on a string (\<^verbatim>\<open>StringToNumber\<close>): white space is trimmed, the empty
  string is zero, then a radix literal, a signed \<^verbatim>\<open>Infinity\<close> or a signed decimal
  literal; anything else is \<^verbatim>\<open>NaN\<close>.
\<close>

definition is_StrWhiteSpaceChar :: "char \<Rightarrow> bool" where
  "is_StrWhiteSpaceChar c \<longleftrightarrow> (let u = code_unit c in (9 \<le> u \<and> u \<le> 13) \<or> u = 32 \<or> u = 160)"

definition trim :: "string \<Rightarrow> string" where
  "trim s = rev (dropWhile is_StrWhiteSpaceChar (rev (dropWhile is_StrWhiteSpaceChar s)))"

definition radix_literal :: "nat \<Rightarrow> string \<Rightarrow> jsnum" where
  "radix_literal b ds =
     (if ds \<noteq> [] \<and> list_all (is_radix_digit b) ds then mk_dec (int (nat_of_digits b ds)) 0 else NaN)"

definition DecimalDigits :: "string \<Rightarrow> nat option" where
  "DecimalDigits ds = (if ds \<noteq> [] \<and> list_all is_digit ds then Some (nat_of_digits 10 ds) else None)"

definition ExponentPart :: "string \<Rightarrow> int option" where
  "ExponentPart s =
     (case s of
        [] \<Rightarrow> None
      | c # r \<Rightarrow>
          if c = CHR ''+'' then map_option int (DecimalDigits r)
          else if c = CHR ''-'' then map_option (\<lambda>x. - int x) (DecimalDigits r)
          else map_option int (DecimalDigits s))"

definition StrUnsignedDecimalLiteral :: "string \<Rightarrow> (nat \<times> int) option" where
  "StrUnsignedDecimalLiteral s =
     (let ip = takeWhile is_digit s;
          r1 = dropWhile is_digit s;
          dot = (case r1 of [] \<Rightarrow> False | c # r \<Rightarrow> c = CHR ''.'');
          fp = (if dot then takeWhile is_digit (tl r1) else []);
          r2 = (if dot then dropWhile is_digit (tl r1) else r1);
          m = nat_of_digits 10 (ip @ fp)
      in if ip = [] \<and> fp = [] then None
         else (case r2 of
                 [] \<Rightarrow> Some (m, - int (length fp))
               | c # r \<Rightarrow>
                   if c = CHR ''e'' \<or> c = CHR ''E''
                   then map_option (\<lambda>x. (m, x - int (length fp))) (ExponentPart r)
                   else None))"

definition Number :: "string \<Rightarrow> jsnum" where
  "Number str =
     (let s = trim str; p = take 2 s in
      if s = [] then Dec 0 0
      else if p = ''0x'' \<or> p = ''0X'' then radix_literal 16 (drop 2 s)
      else if p = ''0o'' \<or> p = ''0O'' then radix_literal 8 (drop 2 s)
      else if p = ''0b'' \<or> p = ''0B'' then radix_literal 2 (drop 2 s)
      else (let neg = (take 1 s = ''-'');
                body = (if take 1 s = ''-'' \<or> take 1 s = ''+'' then drop 1 s else s)
            in if body = ''Infinity'' then (if neg then NegInf else PosInf)
               else (case StrUnsignedDecimalLiteral body of
                       None \<Rightarrow> NaN
                     | Some (m, e) \<Rightarrow> mk_dec (if neg then - int m else int m) e)))"

subsection \<open>Values\<close>

text \<open>
  A value is a primitive, an array or an object. An object lists its own properties
  in the order \<^verbatim>\<open>JSON.stringify\<close> visits them. A read that finds nothing yields
  \<^verbatim>\<open>undefined\<close>, written \<open>None\<close>; an array hole, which reads as \<^verbatim>\<open>undefined\<close> and is
  serialised as \<^verbatim>\<open>null\<close>, is recorded as \<open>JNull\<close>: no array is read again between the
  write that makes a hole and its serialisation.
\<close>

datatype jsval =
    JNull
  | JBool bool
  | JNum jsnum
  | JStr string
  | JArr "jsval list"
  | JObj "(string \<times> jsval) list"

definition truthy :: "jsval \<Rightarrow> bool" where
  "truthy v =
     (case v of
        JNull \<Rightarrow> False
      | JBool b \<Rightarrow> b
      | JNum n \<Rightarrow> \<not> Number_isNaN n \<and> \<not> is_zero n
      | JStr s \<Rightarrow> s \<noteq> []
      | JArr xs \<Rightarrow> True
      | JObj kvs \<Rightarrow> True)"

text \<open>\<^verbatim>\<open>String(value)\<close>, also what a template literal does to a value.\<close>

fun String :: "jsval \<Rightarrow> string" where
  "String JNull = ''null''"
| "String (JBool b) = (if b then ''true'' else ''false'')"
| "String (JNum n) = Number_toString n"
| "String (JStr s) = s"
| "String (JArr xs) = join '','' (map (\<lambda>x. if x = JNull then [] else String x) xs)"
| "String (JObj kvs) = ''[object Object]''"

subsection \<open>Own properties\<close>

text \<open>
  An array index is a canonical decimal numeral below \<open>2^32 - 1\<close>. The own property keys
  of an ordinary object are ordered with the array indices first, ascending, and the
  other strings after them in the order of their creation.
\<close>

definition array_index :: "string \<Rightarrow> nat option" where
  "array_index k =
     (if k \<noteq> [] \<and> list_all is_digit k \<and> (k = ''0'' \<or> take 1 k \<noteq> ''0'')
         \<and> nat_of_digits 10 k < 4294967295
      then Some (nat_of_digits 10 k) else None)"

fun insert_index :: "nat \<Rightarrow> string \<Rightarrow> jsval \<Rightarrow> (string \<times> jsval) list \<Rightarrow> (string \<times> jsval) list" where
  "insert_index i k v [] = [(k, v)]"
| "insert_index i k v ((k', v') # kvs) =
     (case array_index k' of
        None \<Rightarrow> (k, v) # (k', v') # kvs
      | Some j \<Rightarrow> if i < j then (k, v) # (k', v') # kvs else (k', v') # insert_index i k v kvs)"

definition obj_set :: "string \<Rightarrow> jsval \<Rightarrow> (string \<times> jsval) list \<Rightarrow> (string \<times> jsval) list" where
  "obj_set k v kvs =
     (if k \<in> set (map fst kvs) then map (\<lambda>(k', v'). if k' = k then (k', v) else (k', v')) kvs
      else (case array_index k of
              None \<Rightarrow> kvs @ [(k, v)]
            | Some i \<Rightarrow> insert_index i k v kvs))"

definition obj_delete :: "string \<Rightarrow> (string \<times> jsval) list \<Rightarrow> (string \<times> jsval) list" where
  "obj_delete k kvs = filter (\<lambda>(k', v'). k' \<noteq> k) kvs"

datatype error = SyntaxError | TypeError | RangeError

text \<open>
  \<^verbatim>\<open>acc[seg]\<close> on a value that is not \<^verbatim>\<open>null\<close>: the own property, or \<^verbatim>\<open>undefined\<close>. (The
  reducer of \<^verbatim>\<open>handleSave\<close> reads a property of truthy values only.)
\<close>

definition get_prop :: "jsval \<Rightarrow> string \<Rightarrow> jsval option" where
  "get_prop a k =
     (case a of
        JObj kvs \<Rightarrow> map_of kvs k
      | JArr xs \<Rightarrow>
          (case array_index k of
             Some i \<Rightarrow> if i < length xs then Some (xs ! i) else None
           | None \<Rightarrow> if k = ''length'' then Some (JNum (mk_dec (int (length xs)) 0)) else None)
      | JStr s \<Rightarrow>
          (case array_index k of
             Some i \<Rightarrow> if i < length s then Some (JStr [s ! i]) else None
           | None \<Rightarrow> if k = ''length'' then Some (JNum (mk_dec (int (length s)) 0)) else None)
      | _ \<Rightarrow> None)"

text \<open>
  \<^verbatim>\<open>ToNumber\<close> (an array or an object goes through its string), and the new length of
  an array whose \<^verbatim>\<open>length\<close> is assigned: a whole number below \<open>2^32\<close>, or \<^verbatim>\<open>RangeError\<close>.
\<close>

definition ToNumber :: "jsval \<Rightarrow> jsnum" where
  "ToNumber v =
     (case v of
        JNull \<Rightarrow> Dec 0 0
      | JBool b \<Rightarrow> (if b then Dec 1 0 else Dec 0 0)
      | JNum n \<Rightarrow> n
      | JStr s \<Rightarrow> Number s
      | _ \<Rightarrow> Number (String v))"

definition array_length_of :: "jsnum \<Rightarrow> nat option" where
  "array_length_of n =
     (case n of
        Dec m e \<Rightarrow> if 0 \<le> m \<and> 0 \<le> e \<and> m * 10 ^ nat e < 4294967296
                   then Some (nat (m * 10 ^ nat e)) else None
      | _ \<Rightarrow> None)"

text \<open>\<^verbatim>\<open>objToEdit[key] = value\<close> in strict mode.\<close>

definition set_prop :: "jsval \<Rightarrow> string \<Rightarrow> jsval \<Rightarrow> error + jsval" where
  "set_prop obj k v =
     (case obj of
        JObj kvs \<Rightarrow> Inr (JObj (obj_set k v kvs))
      | JArr xs \<Rightarrow>
          (case array_index k of
             Some i \<Rightarrow>
               if i < length xs then Inr (JArr (xs[i := v]))
               else Inr (JArr (xs @ replicate (i - length xs) JNull @ [v]))
           | None \<Rightarrow>
               if k = ''length''
               then (case array_length_of (ToNumber v) of
                       None \<Rightarrow> Inl RangeError
                     | Some n \<Rightarrow> Inr (JArr (take n xs @ replicate (n - length xs) JNull)))
               else Inr (JArr xs))
      | _ \<Rightarrow> Inl TypeError)"

text \<open>\<^verbatim>\<open>delete objToEdit[key]\<close> in strict mode.\<close>

definition delete_prop :: "jsval \<Rightarrow> string \<Rightarrow> error + jsval" where
  "delete_prop obj k =
     (case obj of
        JObj kvs \<Rightarrow> Inr (JObj (obj_delete k kvs))
      | JArr xs \<Rightarrow>
          (case array_index k of
             Some i \<Rightarrow> Inr (JArr (if i < length xs then xs[i := JNull] else xs))
           | None \<Rightarrow> if k = ''length'' then Inl TypeError else Inr (JArr xs))
      | JStr s \<Rightarrow>
          (case array_index k of
             Some i \<Rightarrow> if i < length s then Inl TypeError else Inr (JStr s)
           | None \<Rightarrow> if k = ''length'' then Inl TypeError else Inr (JStr s))
      | JNull \<Rightarrow> Inl TypeError
      | _ \<Rightarrow> Inr obj)"

section \<open>JSON text\<close>

subsection \<open>\<^verbatim>\<open>JSON.stringify(value, null, 2)\<close>\<close>

definition hex_digit :: "nat \<Rightarrow> char" where
  "hex_digit d = ''0123456789abcdef'' ! d"

definition escape_char :: "char \<Rightarrow> string" where
  "escape_char c =
     (let u = code_unit c in
      if u = 8 then [bs, CHR ''b'']
      else if u = 9 then [bs, CHR ''t'']
      else if u = 10 then [bs, CHR ''n'']
      else if u = 12 then [bs, CHR ''f'']
      else if u = 13 then [bs, CHR ''r'']
      else if c = dq then [bs, dq]
      else if c = bs then [bs, bs]
      else if u < 32 then [bs, CHR ''u'', CHR ''0'', CHR ''0'', hex_digit (u div 16), hex_digit (u mod 16)]
      else [c])"

definition QuoteJSONString :: "string \<Rightarrow> string" where
  "QuoteJSONString s = dq # concat (map escape_char s) @ [dq]"

primrec indent :: "nat \<Rightarrow> string" where
  "indent 0 = []"
| "indent (Suc l) = ''  '' @ indent l"

text \<open>
  \<open>ser l v\<close> is the text of \<open>v\<close> at nesting depth \<open>l\<close> with a gap of two spaces. A number
  that is not finite is written \<^verbatim>\<open>null\<close>.
\<close>

fun ser :: "nat \<Rightarrow> jsval \<Rightarrow> string" where
  "ser l JNull = ''null''"
| "ser l (JBool b) = (if b then ''true'' else ''false'')"
| "ser l (JNum n) = (if is_finite n then Number_toString n else ''null'')"
| "ser l (JStr s) = QuoteJSONString s"
| "ser l (JArr xs) =
     (if xs = [] then ''[]''
      else ''['' @ nl # indent (Suc l)
           @ join ('','' @ nl # indent (Suc l)) (map (ser (Suc l)) xs)
           @ nl # indent l @ '']'')"
| "ser l (JObj kvs) =
     (if kvs = [] then ''{}''
      else ''{'' @ nl # indent (Suc l)
           @ join ('','' @ nl # indent (Suc l))
               (map (\<lambda>(k, v). QuoteJSONString k @ '': '' @ ser (Suc l) v) kvs)
           @ nl # indent l @ ''}'')"

definition JSON_stringify :: "jsval \<Rightarrow> string" where
  "JSON_stringify v = ser 0 v"

subsection \<open>\<^verbatim>\<open>JSON.parse(text)\<close>\<close>

datatype token =
    Tok_lbrace | Tok_rbrace | Tok_lbrack | Tok_rbrack | Tok_colon | Tok_comma
  | Tok_str string | Tok_num jsnum | Tok_true | Tok_false | Tok_null

definition is_json_ws :: "char \<Rightarrow> bool" where
  "is_json_ws c \<longleftrightarrow> (let u = code_unit c in u = 32 \<or> u = 9 \<or> u = 10 \<or> u = 13)"

definition simple_escape :: "char \<Rightarrow> char option" where
  "simple_escape e =
     (if e = dq then Some dq
      else if e = bs then Some bs
      else if e = CHR ''/'' then Some (CHR ''/'')
      else if e = CHR ''b'' then Some (CHR 0x08)
      else if e = CHR ''f'' then Some (CHR 0x0C)
      else if e = CHR ''n'' then Some (CHR 0x0A)
      else if e = CHR ''r'' then Some (CHR 0x0D)
      else if e = CHR ''t'' then Some (CHR 0x09)
      else None)"

text \<open>
  \<^verbatim>\<open>\uXXXX\<close>: the code unit with that number. A code unit above U+00FF has no
  character in this embedding and is reported as a syntax error.
\<close>

definition unicode_escape :: "char \<Rightarrow> char \<Rightarrow> char \<Rightarrow> char \<Rightarrow> char option" where
  "unicode_escape h1 h2 h3 h4 =
     (case (hex_val h1, hex_val h2, hex_val h3, hex_val h4) of
        (Some a, Some b, Some c, Some d) \<Rightarrow>
          if a = 0 \<and> b = 0 then Some (char_of (16 * c + d)) else None
      | _ \<Rightarrow> None)"

text \<open>The characters of a string literal after its opening quote, and the text after it.\<close>

fun lex_string :: "string \<Rightarrow> (string \<times> string) option" where
  "lex_string [] = None"
| "lex_string (c # cs) =
     (if c = dq then Some ([], cs)
      else if c = bs then
        (case cs of
           [] \<Rightarrow> None
         | e # r \<Rightarrow>
             if e = CHR ''u'' then
               (case r of
                  h1 # h2 # h3 # h4 # r' \<Rightarrow>
                    (case unicode_escape h1 h2 h3 h4 of
                       None \<Rightarrow> None
                     | Some ch \<Rightarrow>
                         (case lex_string r' of
                            None \<Rightarrow> None
                          | Some (s, rest) \<Rightarrow> Some (ch # s, rest)))
                | _ \<Rightarrow> None)
             else
               (case simple_escape e of
                  None \<Rightarrow> None
                | Some ch \<Rightarrow>
                    (case lex_string r of
                       None \<Rightarrow> None
                     | Some (s, rest) \<Rightarrow> Some (ch # s, rest))))
      else if code_unit c < 32 then None
      else (case lex_string cs of
              None \<Rightarrow> None
            | Some (s, rest) \<Rightarrow> Some (c # s, rest)))"

text \<open>
  A number literal at the head of the text: an optional minus, an integer part without
  a leading zero, an optional fraction and an optional exponent.
\<close>

definition lex_number :: "string \<Rightarrow> (jsnum \<times> string) option" where
  "lex_number s =
     (let neg = (take 1 s = ''-'');
          s1 = (if neg then drop 1 s else s);
          ip = takeWhile is_digit s1;
          r1 = dropWhile is_digit s1;
          dot = (take 1 r1 = ''.'');
          fp = (if dot then takeWhile is_digit (drop 1 r1) else []);
          r2 = (if dot then dropWhile is_digit (drop 1 r1) else r1);
          ex = (take 1 r2 = ''e'' \<or> take 1 r2 = ''E'');
          r3 = drop 1 r2;
          eneg = (take 1 r3 = ''-'');
          r4 = (if take 1 r3 = ''-'' \<or> take 1 r3 = ''+'' then drop 1 r3 else r3);
          ep = takeWhile is_digit r4;
          r5 = dropWhile is_digit r4;
          m = int (nat_of_digits 10 (ip @ fp));
          x = (if ex then (if eneg then - int (nat_of_digits 10 ep) else int (nat_of_digits 10 ep)) else 0)
      in if ip = [] \<or> (1 < length ip \<and> take 1 ip = ''0'') \<or> (dot \<and> fp = []) \<or> (ex \<and> ep = [])
         then None
         else Some (mk_dec (if neg then - m else m) (x - int (length fp)), if ex then r5 else r2))"

lemma lex_string_shorter: "lex_string cs = Some (s, rest) \<Longrightarrow> length rest \<le> length cs"
proof (induction cs arbitrary: s rest rule: lex_string.induct)
  case 1
  then show ?case by simp
next
  case (2 c cs)
  show ?case
  proof (cases "c = dq")
    case True
    with "2.prems" show ?thesis by simp
  next
    case ndq: False
    show ?thesis
    proof (cases "c = bs")
      case True
      then obtain e r where cs: "cs = e # r"
        using "2.prems" ndq by (cases cs) auto
      show ?thesis
      proof (cases "e = CHR ''u''")
        case eu: True
        then obtain h1 h2 h3 h4 r' where r: "r = h1 # h2 # h3 # h4 # r'"
          using "2.prems" ndq True cs by (simp split: list.splits)
        obtain ch where ch: "unicode_escape h1 h2 h3 h4 = Some ch"
          using "2.prems" ndq True cs eu r by (auto split: option.splits)
        obtain s' where "lex_string r' = Some (s', rest)"
          using "2.prems" ndq True cs eu r ch by (auto split: option.splits)
        from "2.IH"(1)[OF ndq True cs eu r refl refl refl ch this] show ?thesis
          using cs r by simp
      next
        case neu: False
        obtain ch where ch: "simple_escape e = Some ch"
          using "2.prems" ndq True cs neu by (auto split: option.splits)
        obtain s' where "lex_string r = Some (s', rest)"
          using "2.prems" ndq True cs neu ch by (auto split: option.splits)
        from "2.IH"(2)[OF ndq True cs neu ch this] show ?thesis
          using cs by simp
      qed
    next
      case nbs: False
      have ok: "\<not> code_unit c < 32"
        using "2.prems" ndq nbs by (simp split: if_splits)
      obtain s' where "lex_string cs = Some (s', rest)"
        using "2.prems" ndq nbs ok by (auto split: option.splits)
      from "2.IH"(3)[OF ndq nbs ok this] show ?thesis by simp
    qed
  qed
qed

lemma lex_number_shorter:
  assumes "lex_number (c # cs) = Some (n, rest)"
  shows "length rest \<le> length cs"
proof -
  have dw: "length (dropWhile P xs) \<le> length xs" for P and xs :: string
    by (induction xs) auto
  define s where "s = c # cs"
  define s1 where "s1 = (if take 1 s = ''-'' then drop 1 s else s)"
  define r1 where "r1 = dropWhile is_digit s1"
  define r2 where "r2 = (if take 1 r1 = ''.'' then dropWhile is_digit (drop 1 r1) else r1)"
  define r3 where "r3 = drop 1 r2"
  define r4 where "r4 = (if take 1 r3 = ''-'' \<or> take 1 r3 = ''+'' then drop 1 r3 else r3)"
  define r5 where "r5 = dropWhile is_digit r4"
  define ex where "ex = (take 1 r2 = ''e'' \<or> take 1 r2 = ''E'')"
  obtain bad v where eq: "lex_number s = (if takeWhile is_digit s1 = [] \<or> bad then None else Some (v, if ex then r5 else r2))"
    unfolding lex_number_def Let_def s1_def r1_def r2_def r3_def r4_def r5_def ex_def
    by blast
  from assms eq have ip: "takeWhile is_digit s1 \<noteq> []" and rest: "rest = (if ex then r5 else r2)"
    unfolding s_def by (auto split: if_splits)
  from ip obtain d s1' where s1: "s1 = d # s1'" "is_digit d"
    by (cases s1) (auto split: if_splits)
  have "length s1' \<le> length cs"
    using s1 unfolding s1_def s_def by (auto split: if_splits)
  moreover have "length r1 \<le> length s1'"
    unfolding r1_def using s1 dw[of is_digit s1'] by simp
  moreover have "length r2 \<le> length r1"
    unfolding r2_def using dw[of is_digit "drop 1 r1"] by auto
  moreover have "length r5 \<le> length r2"
    unfolding r5_def r4_def r3_def using dw[of is_digit "drop 1 (drop 1 r2)"] dw[of is_digit "drop 1 r2"]
    by auto
  ultimately show ?thesis
    unfolding rest by auto
qed

function JSON_lex :: "string \<Rightarrow> token list option" where
  "JSON_lex [] = Some []"
| "JSON_lex (c # cs) =
     (if is_json_ws c then JSON_lex cs
      else if c = CHR ''{'' then map_option ((#) Tok_lbrace) (JSON_lex cs)
      else if c = CHR ''}'' then map_option ((#) Tok_rbrace) (JSON_lex cs)
      else if c = CHR ''['' then map_option ((#) Tok_lbrack) (JSON_lex cs)
      else if c = CHR '']'' then map_option ((#) Tok_rbrack) (JSON_lex cs)
      else if c = CHR '':'' then map_option ((#) Tok_colon) (JSON_lex cs)
      else if c = CHR '','' then map_option ((#) Tok_comma) (JSON_lex cs)
      else if c = dq then
        (case lex_string cs of
           None \<Rightarrow> None
         | Some (s, rest) \<Rightarrow> map_option ((#) (Tok_str s)) (JSON_lex rest))
      else if c = CHR ''-'' \<or> is_digit c then
        (case lex_number (c # cs) of
           None \<Rightarrow> None
         | Some (n, rest) \<Rightarrow> map_option ((#) (Tok_num n)) (JSON_lex rest))
      else if take 4 (c # cs) = ''true'' then map_option ((#) Tok_true) (JSON_lex (drop 3 cs))
      else if take 5 (c # cs) = ''false'' then map_option ((#) Tok_false) (JSON_lex (drop 4 cs))
      else if take 4 (c # cs) = ''null'' then map_option ((#) Tok_null) (JSON_lex (drop 3 cs))
      else None)"
  by pat_completeness auto
termination
  by (relation "measure length") (auto dest: lex_string_shorter lex_number_shorter simp: less_Suc_eq_le)

declare JSON_lex.simps(2) [simp del]

text \<open>
  The grammar of values over the tokens. Each function returns what it read and the
  tokens after it. The members of an object are defined in the order of the text, a
  repeated key overwriting the value of the earlier one. The tests on the length of
  the remaining tokens make the recursion evidently terminating; they never fail
  (\<open>parse_value_shorter\<close>).
\<close>

fun parse_value :: "token list \<Rightarrow> (jsval \<times> token list) option"
  and parse_elements :: "token list \<Rightarrow> (jsval list \<times> token list) option"
  and parse_members :: "token list \<Rightarrow> ((string \<times> jsval) list \<times> token list) option" where
  "parse_value [] = None"
| "parse_value (t # ts) =
     (case t of
        Tok_null \<Rightarrow> Some (JNull, ts)
      | Tok_true \<Rightarrow> Some (JBool True, ts)
      | Tok_false \<Rightarrow> Some (JBool False, ts)
      | Tok_num n \<Rightarrow> Some (JNum n, ts)
      | Tok_str s \<Rightarrow> Some (JStr s, ts)
      | Tok_lbrack \<Rightarrow>
          (case ts of
             Tok_rbrack # r \<Rightarrow> Some (JArr [], r)
           | _ \<Rightarrow> (case parse_elements ts of
                     None \<Rightarrow> None
                   | Some (vs, r) \<Rightarrow> Some (JArr vs, r)))
      | Tok_lbrace \<Rightarrow>
          (case ts of
             Tok_rbrace # r \<Rightarrow> Some (JObj [], r)
           | _ \<Rightarrow> (case parse_members ts of
                     None \<Rightarrow> None
                   | Some (kvs, r) \<Rightarrow> Some (JObj (foldl (\<lambda>obj (k, v). obj_set k v obj) [] kvs), r)))
      | _ \<Rightarrow> None)"
| "parse_elements ts =
     (case parse_value ts of
        None \<Rightarrow> None
      | Some (v, r) \<Rightarrow>
          (case r of
             Tok_comma # r' \<Rightarrow>
               if length r' < length ts
               then (case parse_elements r' of
                       None \<Rightarrow> None
                     | Some (vs, r'') \<Rightarrow> Some (v # vs, r''))
               else None
           | Tok_rbrack # r' \<Rightarrow> Some ([v], r')
           | _ \<Rightarrow> None))"
| "parse_members ts =
     (case ts of
        Tok_str k # Tok_colon # ts' \<Rightarrow>
          (case parse_value ts' of
             None \<Rightarrow> None
           | Some (v, r) \<Rightarrow>
               (case r of
                  Tok_comma # r' \<Rightarrow>
                    if length r' < length ts
                    then (case parse_members r' of
                            None \<Rightarrow> None
                          | Some (kvs, r'') \<Rightarrow> Some ((k, v) # kvs, r''))
                    else None
                | Tok_rbrace # r' \<Rightarrow> Some ([(k, v)], r')
                | _ \<Rightarrow> None))
      | _ \<Rightarrow> None)"

definition JSON_parse :: "string \<Rightarrow> error + jsval" where
  "JSON_parse text =
     (case JSON_lex text of
        None \<Rightarrow> Inl SyntaxError
      | Some ts \<Rightarrow>
          (case parse_value ts of
             Some (v, []) \<Rightarrow> Inr v
           | _ \<Rightarrow> Inl SyntaxError))"

section \<open>The node modal\<close>

subsection \<open>Rows and nodes\<close>

text \<open>
  Modelled from the spec: the declarations \<^verbatim>\<open>NodeRow\<close> and \<^verbatim>\<open>NodeData\<close> of
  \<^verbatim>\<open>types/graph\<close> are not part of the sources at hand. A row is
  \<^verbatim>\<open>{ key: optional string, value: raw value, type: FieldType }\<close> with the field types
  \<^verbatim>\<open>string | number | boolean | null | array | object\<close>; a path segment is a
  non-negative integer or a string; a node has an identifier
  (\<^verbatim>\<open>id\<close>), its rows (\<^verbatim>\<open>text\<close>) and an optional path (\<^verbatim>\<open>path\<close>).
\<close>

datatype field_type = TyString | TyNumber | TyBoolean | TyNull | TyArray | TyObject

record NodeRow =
  key :: "string option"
  val :: jsval
  type :: field_type

datatype segment = Key string | Index nat

record NodeData =
  node_id :: string
  node_text :: "NodeRow list"
  node_path :: "segment list option"

text \<open>\<^verbatim>\<open>!row.key\<close> is false exactly for a key that is a non-empty string.\<close>

definition has_key :: "NodeRow \<Rightarrow> bool" where
  "has_key row = (case key row of None \<Rightarrow> False | Some k \<Rightarrow> k \<noteq> [])"

subsection \<open>\<^verbatim>\<open>normalizeNodeData\<close>\<close>

definition normalizeNodeData :: "NodeRow list \<Rightarrow> string" where
  "normalizeNodeData nodeRows =
     (if nodeRows = [] then ''{}''
      else if length nodeRows = 1 \<and> \<not> has_key (hd nodeRows) then String (val (hd nodeRows))
      else JSON_stringify (JObj (foldl
             (\<lambda>obj row.
                if type row \<noteq> TyArray \<and> type row \<noteq> TyObject
                then (if has_key row then obj_set (the (key row)) (val row) obj else obj)
                else obj)
             [] nodeRows)))"

subsection \<open>\<^verbatim>\<open>convertValueByType\<close>\<close>

definition convertValueByType :: "field_type \<Rightarrow> string \<Rightarrow> jsval" where
  "convertValueByType ty v =
     (if ty = TyNumber then (let n = Number v in if Number_isNaN n then JStr v else JNum n)
      else if ty = TyBoolean then JBool (v = ''true'')
      else if ty = TyNull then JNull
      else JStr v)"

subsection \<open>\<^verbatim>\<open>handleSave\<close>\<close>

text \<open>
  The property key of a path segment: \<^verbatim>\<open>acc[seg]\<close> turns a number into its string.
\<close>

definition prop_key :: "segment \<Rightarrow> string" where
  "prop_key seg = (case seg of Key k \<Rightarrow> k | Index i \<Rightarrow> Number_toString (mk_dec (int i) 0))"

text \<open>
  The reducer \<^verbatim>\<open>(acc, seg) => (acc ? acc[seg] : undefined)\<close>. The value parsed from the
  text is a tree, so an object in it is reached by one access path only and a
  reference to it is that access path: the accumulator carries, beside the value, the
  keys followed so far.
\<close>

definition reducer :: "string list \<times> jsval option \<Rightarrow> segment \<Rightarrow> string list \<times> jsval option" where
  "reducer acc seg =
     (case acc of
        (loc, None) \<Rightarrow> (loc, None)
      | (loc, Some a) \<Rightarrow>
          if truthy a then (loc @ [prop_key seg], get_prop a (prop_key seg)) else (loc, None))"

text \<open>
  \<^verbatim>\<open>objToEdit\<close>: the root, or what the path leads to unless that is \<^verbatim>\<open>undefined\<close> or
  \<^verbatim>\<open>null\<close> (the operator \<^verbatim>\<open>??\<close>); as the place of the value in the document and the value.
\<close>

definition objToEdit :: "jsval \<Rightarrow> segment list \<Rightarrow> string list \<times> jsval" where
  "objToEdit parsed targetPath =
     (if targetPath \<noteq> []
      then (case foldl reducer ([], Some parsed) targetPath of
              (loc, None) \<Rightarrow> ([], parsed)
            | (loc, Some JNull) \<Rightarrow> ([], parsed)
            | (loc, Some v) \<Rightarrow> (loc, v))
      else ([], parsed))"

text \<open>The document with the value at a place replaced: what a write through the reference does to \<^verbatim>\<open>parsed\<close>.\<close>

fun update_at :: "string list \<Rightarrow> jsval \<Rightarrow> jsval \<Rightarrow> jsval" where
  "update_at [] new doc = new"
| "update_at (k # ks) new doc =
     (case doc of
        JObj kvs \<Rightarrow> JObj (map (\<lambda>(k', v). if k' = k then (k', update_at ks new v) else (k', v)) kvs)
      | JArr xs \<Rightarrow>
          (case array_index k of
             Some i \<Rightarrow> if i < length xs then JArr (xs[i := update_at ks new (xs ! i)]) else doc
           | None \<Rightarrow> doc)
      | _ \<Rightarrow> doc)"

text \<open>
  The body of \<^verbatim>\<open>rows.forEach((r, idx) => ...)\<close> on the object \<^verbatim>\<open>objToEdit\<close> refers to. A
  throw ends the whole loop.
\<close>

definition save_row :: "NodeRow list \<Rightarrow> jsval \<Rightarrow> nat \<Rightarrow> NodeRow \<Rightarrow> error + jsval" where
  "save_row originalRows obj idx r =
     (if \<not> has_key r then Inr obj
      else
        (let originalRow = (if idx < length originalRows then Some (originalRows ! idx) else None);
             newKey = the (key r);
             newValue = convertValueByType (type r) (String (val r))
         in case (case originalRow of
                    None \<Rightarrow> Inr obj
                  | Some orig \<Rightarrow>
                      if has_key orig \<and> the (key orig) \<noteq> newKey
                      then delete_prop obj (the (key orig))
                      else Inr obj) of
              Inl e \<Rightarrow> Inl e
            | Inr obj' \<Rightarrow> set_prop obj' newKey newValue))"

fun forEach_rows :: "NodeRow list \<Rightarrow> nat \<Rightarrow> NodeRow list \<Rightarrow> jsval \<Rightarrow> error + jsval" where
  "forEach_rows originalRows idx [] obj = Inr obj"
| "forEach_rows originalRows idx (r # rs) obj =
     (case save_row originalRows obj idx r of
        Inl e \<Rightarrow> Inl e
      | Inr obj' \<Rightarrow> forEach_rows originalRows (Suc idx) rs obj')"

text \<open>
  The \<^verbatim>\<open>try\<close> block of \<^verbatim>\<open>handleSave\<close> up to \<^verbatim>\<open>jsonStr\<close>, first on the parsed value and then on
  the text: \<open>applyEdits\<close> is the \<^verbatim>\<open>applyEdits(documentText, path, originalRows, editedRows)\<close>
  of the specification.
\<close>

definition editParsed :: "jsval \<Rightarrow> segment list \<Rightarrow> NodeRow list \<Rightarrow> NodeRow list \<Rightarrow> error + jsval" where
  "editParsed parsed targetPath originalRows rows =
     (case objToEdit parsed targetPath of
        (loc, obj) \<Rightarrow>
          (case forEach_rows originalRows 0 rows obj of
             Inl e \<Rightarrow> Inl e
           | Inr obj' \<Rightarrow> Inr (update_at loc obj' parsed)))"

definition applyEdits :: "string \<Rightarrow> segment list \<Rightarrow> NodeRow list \<Rightarrow> NodeRow list \<Rightarrow> error + string" where
  "applyEdits json targetPath originalRows rows =
     (case JSON_parse (if json = [] then ''{}'' else json) of
        Inl e \<Rightarrow> Inl e
      | Inr parsed \<Rightarrow>
          (case editParsed parsed targetPath originalRows rows of
             Inl e \<Rightarrow> Inl e
           | Inr parsed' \<Rightarrow> Inr (JSON_stringify parsed')))"

text \<open>
  The state \<^verbatim>\<open>handleSave\<close> reads and writes: the text of \<^verbatim>\<open>useJson\<close>, the selected node of
  \<^verbatim>\<open>useGraph\<close>, the rows and the editing flag of the component, and the text and the flag
  of the file store \<^verbatim>\<open>useFile\<close>.
\<close>

record modal =
  json :: string
  nodeData :: "NodeData option"
  rows :: "NodeRow list"
  editing :: bool
  contents :: string
  hasChanges :: bool

text \<open>
  Modelled from the spec: \<^verbatim>\<open>setContents\<close> of the store \<^verbatim>\<open>useFile\<close> is not part of the sources
  at hand. The store receives the new text together with the flag for unsaved changes.
\<close>

definition setContents :: "string \<Rightarrow> bool \<Rightarrow> modal \<Rightarrow> modal" where
  "setContents c h st = st\<lparr>contents := c, hasChanges := h\<rparr>"

definition setEditing :: "bool \<Rightarrow> modal \<Rightarrow> modal" where
  "setEditing b st = st\<lparr>editing := b\<rparr>"

text \<open>\<^verbatim>\<open>nodeData?.path ?? []\<close> and the rows \<^verbatim>\<open>nodeData?.text\<close> that \<^verbatim>\<open>nodeData?.text?.[idx]\<close> reads.\<close>

definition target_path :: "modal \<Rightarrow> segment list" where
  "target_path st =
     (case nodeData st of
        None \<Rightarrow> []
      | Some nd \<Rightarrow> (case node_path nd of None \<Rightarrow> [] | Some p \<Rightarrow> p))"

definition node_rows :: "modal \<Rightarrow> NodeRow list" where
  "node_rows st = (case nodeData st of None \<Rightarrow> [] | Some nd \<Rightarrow> node_text nd)"

text \<open>A throw anywhere in the \<^verbatim>\<open>try\<close> block is caught and only logged: the state stays as it is.\<close>

definition handleSave :: "modal \<Rightarrow> modal" where
  "handleSave st =
     (case applyEdits (json st) (target_path st) (node_rows st) (rows st) of
        Inl e \<Rightarrow> st
      | Inr jsonStr \<Rightarrow> setEditing False (setContents jsonStr True st))"

section \<open>The path resolution of the specification\<close>

text \<open>
  The specification's \<^verbatim>\<open>resolve(document, path)\<close> ``indexes into the document, one segment
  at a time'': \<open>walk\<close> follows its words, reading one property per segment, and yields
  \<open>None\<close> when a read finds nothing. \<open>on_way\<close> lists the values a property is read from,
  up to the first read that finds nothing.
\<close>

fun walk :: "jsval \<Rightarrow> segment list \<Rightarrow> jsval option" where
  "walk doc [] = Some doc"
| "walk doc (seg # segs) =
     (case get_prop doc (prop_key seg) of
        None \<Rightarrow> None
      | Some v \<Rightarrow> walk v segs)"

fun on_way :: "jsval \<Rightarrow> segment list \<Rightarrow> jsval list" where
  "on_way doc [] = []"
| "on_way doc (seg # segs) =
     doc # (case get_prop doc (prop_key seg) of
              None \<Rightarrow> []
            | Some v \<Rightarrow> on_way v segs)"

text \<open>
  \<open>value_at\<close> reads the value at a place of the document, one key after the other, and
  \<open>is_reference\<close> holds of the values a variable refers to, the objects and the arrays;
  of a primitive a variable holds a copy.
\<close>

fun value_at :: "string list \<Rightarrow> jsval \<Rightarrow> jsval option" where
  "value_at [] doc = Some doc"
| "value_at (k # ks) doc =
     (case get_prop doc k of
        None \<Rightarrow> None
      | Some v \<Rightarrow> value_at ks v)"

definition is_reference :: "jsval \<Rightarrow> bool" where
  "is_reference v = (case v of JObj kvs \<Rightarrow> True | JArr xs \<Rightarrow> True | _ \<Rightarrow> False)"

definition resolve_spec :: "jsval \<Rightarrow> segment list \<Rightarrow> jsval" where
  "resolve_spec doc p = (case walk doc p of None \<Rightarrow> doc | Some v \<Rightarrow> v)"

text \<open>
  The specification's \<^verbatim>\<open>normalize(rows)\<close> builds ``an object containing only rows whose
  type is neither array nor object and whose key is non-empty'': \<open>displayed\<close> is that
  test and \<open>object_of_rows\<close> the object of a list of rows, each row defining its key.
\<close>

definition displayed :: "NodeRow \<Rightarrow> bool" where
  "displayed row \<longleftrightarrow> type row \<noteq> TyArray \<and> type row \<noteq> TyObject \<and> has_key row"

definition object_of_rows :: "NodeRow list \<Rightarrow> (string \<times> jsval) list" where
  "object_of_rows rs = foldl (\<lambda>obj row. obj_set (the (key row)) (val row) obj) [] rs"

section \<open>Evaluation\<close>

lemmas eval_defs =
  code_unit_def is_digit_def digit_char_def hex_val_def is_radix_digit_def nat_of_digits_def
  digits.simps norm_dec.simps mk_dec_def is_finite_def is_zero_def Number_isNaN_def layout_def
  Number_toString_def is_StrWhiteSpaceChar_def trim_def radix_literal_def DecimalDigits_def
  ExponentPart_def StrUnsignedDecimalLiteral_def Number_def Let_def truthy_def array_index_def
  obj_set_def obj_delete_def get_prop_def ToNumber_def array_length_of_def set_prop_def
  delete_prop_def hex_digit_def escape_char_def QuoteJSONString_def JSON_stringify_def
  is_json_ws_def simple_escape_def unicode_escape_def lex_number_def JSON_lex.simps(2)
  JSON_parse_def nl_def dq_def bs_def has_key_def normalizeNodeData_def convertValueByType_def
  prop_key_def reducer_def objToEdit_def save_row_def editParsed_def applyEdits_def
  setContents_def setEditing_def target_path_def node_rows_def handleSave_def resolve_spec_def
  displayed_def object_of_rows_def

section \<open>Own properties of objects\<close>






section \<open>The reducer and the walk\<close>

lemma reducer_simps:
  "reducer (loc, None) seg = (loc, None)"
  "reducer (loc, Some a) seg =
     (if truthy a then (loc @ [prop_key seg], get_prop a (prop_key seg)) else (loc, None))"
  by (simp_all add: reducer_def)

lemma foldl_reducer_None: "foldl reducer (loc, None) p = (loc, None)"
  by (induction p) (simp_all add: reducer_simps)

lemma foldl_reducer_walk:
  "foldl reducer (loc, Some a) p =
     (if list_all truthy (on_way a p) \<and> walk a p \<noteq> None then (loc @ map prop_key p, walk a p)
      else (fst (foldl reducer (loc, Some a) p), None))"
proof (induction p arbitrary: loc a)
  case Nil
  then show ?case by simp
next
  case (Cons seg segs)
  show ?case
  proof (cases "truthy a")
    case False
    then show ?thesis by (simp add: reducer_simps foldl_reducer_None)
  next
    case True
    show ?thesis
    proof (cases "get_prop a (prop_key seg)")
      case None
      with True show ?thesis by (simp add: reducer_simps foldl_reducer_None)
    next
      case (Some v)
      have "foldl reducer (loc, Some a) (seg # segs) = foldl reducer (loc @ [prop_key seg], Some v) segs"
        using True Some by (simp add: reducer_simps)
      with Cons.IH[of "loc @ [prop_key seg]" v] True Some show ?thesis
        by (auto split: if_splits)
    qed
  qed
qed

lemma objToEdit_cases:
  "objToEdit doc p =
     (if p \<noteq> [] \<and> list_all truthy (on_way doc p)
      then (case walk doc p of
              None \<Rightarrow> ([], doc)
            | Some v \<Rightarrow> if v = JNull then ([], doc) else (map prop_key p, v))
      else ([], doc))"
proof (cases "p = []")
  case True
  then show ?thesis by (simp add: objToEdit_def)
next
  case False
  show ?thesis
  proof (cases "list_all truthy (on_way doc p) \<and> walk doc p \<noteq> None")
    case True
    have "foldl reducer ([], Some doc) p = (map prop_key p, walk doc p)"
      using foldl_reducer_walk[of "[]" doc p] True by simp
    with False True show ?thesis
      by (cases "walk doc p"; simp add: objToEdit_def split: jsval.splits)
  next
    case nt: False
    obtain loc where "foldl reducer ([], Some doc) p = (loc, None)"
      using foldl_reducer_walk[of "[]" doc p] nt by (metis (full_types))
    with False nt show ?thesis
      by (auto simp: objToEdit_def)
  qed
qed

section \<open>The place of the target\<close>

text \<open>
  The place \<^verbatim>\<open>objToEdit\<close> carries is where its value stands in the document, and a write
  through a reference is read back at that place.
\<close>

lemma value_at_walk: "value_at (map prop_key p) doc = walk doc p"
  by (induction p arbitrary: doc) (simp_all split: option.splits)

lemma objToEdit_value_at: "objToEdit doc p = (loc, v) \<Longrightarrow> value_at loc doc = Some v"
  by (auto simp: objToEdit_cases value_at_walk split: if_splits option.splits)

lemma value_at_primitive:
  "\<not> is_reference doc \<Longrightarrow> value_at ks doc = Some v \<Longrightarrow> \<not> is_reference v"
proof (induction ks arbitrary: doc)
  case Nil
  then show ?case by simp
next
  case (Cons k ks)
  from Cons.prems obtain x where x: "get_prop doc k = Some x" "value_at ks x = Some v"
    by (auto split: option.splits)
  from Cons.prems(1) x(1) have "\<not> is_reference x"
    by (cases doc) (auto simp: get_prop_def is_reference_def split: option.splits if_splits)
  from Cons.IH[OF this x(2)] show ?case .
qed

lemma map_of_update_first:
  "map_of kvs k = Some x \<Longrightarrow>
   map_of (map (\<lambda>(k', v). if k' = k then (k', f v) else (k', v)) kvs) k = Some (f x)"
  by (induction kvs) (auto split: if_splits)

lemma value_at_update_at:
  "value_at loc doc = Some v \<Longrightarrow> is_reference v \<Longrightarrow> value_at loc (update_at loc new doc) = Some new"
proof (induction loc arbitrary: doc)
  case Nil
  then show ?case by simp
next
  case (Cons k ks)
  from Cons.prems obtain x where x: "get_prop doc k = Some x" "value_at ks x = Some v"
    by (auto split: option.splits)
  have ref: "is_reference doc"
    using value_at_primitive[of doc "k # ks" v] Cons.prems by blast
  from Cons.IH[OF x(2) Cons.prems(2)] have ih: "value_at ks (update_at ks new x) = Some new" .
  show ?case
  proof (cases doc)
    case (JObj kvs)
    with x(1) have "map_of kvs k = Some x" by (simp add: get_prop_def)
    from map_of_update_first[OF this, of "update_at ks new"] ih JObj show ?thesis
      by (simp add: get_prop_def)
  next
    case (JArr xs)
    show ?thesis
    proof (cases "array_index k")
      case None
      with x(1) JArr have "k = ''length''" "x = JNum (mk_dec (int (length xs)) 0)"
        by (auto simp: get_prop_def split: if_splits)
      with x(2) Cons.prems(2) show ?thesis
        using value_at_primitive[of x ks v] by (simp add: is_reference_def)
    next
      case (Some i)
      with x(1) JArr have "i < length xs" "x = xs ! i"
        by (auto simp: get_prop_def split: if_splits)
      with Some JArr ih show ?thesis
        by (simp add: get_prop_def)
    qed
  qed (use ref in \<open>simp_all add: is_reference_def\<close>)
qed

section \<open>The loop over the rows\<close>

text \<open>On an object no step of the loop throws; it deletes the old key of a renamed row and defines the new one.\<close>

lemma save_row_JObj:
  "save_row originalRows (JObj kvs) idx r =
     Inr (JObj (if has_key r
                then obj_set (the (key r)) (convertValueByType (type r) (String (val r)))
                       (if idx < length originalRows \<and> has_key (originalRows ! idx)
                           \<and> the (key (originalRows ! idx)) \<noteq> the (key r)
                        then obj_delete (the (key (originalRows ! idx))) kvs else kvs)
                else kvs))"
  by (simp add: save_row_def Let_def set_prop_def delete_prop_def)



section \<open>The text of a value is read back\<close>

text \<open>
  Every text \<^verbatim>\<open>JSON.stringify\<close> writes is accepted by \<^verbatim>\<open>JSON.parse\<close>. The text of a
  number is a number literal (\<open>num_text\<close>), a quoted string is read back as the string
  it quotes, and the text of a value followed by a separator (\<open>sep\<close>: the end of the
  text, a comma or a line break) yields tokens that parse as one value (\<open>printable\<close>).
\<close>

subsection \<open>Digits\<close>








subsection \<open>Number literals\<close>

definition sep :: "string \<Rightarrow> bool" where
  "sep rest \<longleftrightarrow> rest = [] \<or> hd rest = CHR '','' \<or> hd rest = nl"



lemma take1_hd: "xs \<noteq> [] \<Longrightarrow> take 1 (xs @ ys) = [hd xs]"
  by (cases xs) simp_all









subsection \<open>String literals\<close>






subsection \<open>Tokens\<close>











subsection \<open>Values\<close>


















section \<open>Properties of the save algorithm\<close>

text \<open>
  C1. For the document \<^verbatim>\<open>{"customer":{"name":"Alice","age":30}}\<close>, the path
  \<^verbatim>\<open>["customer"]\<close>, the original rows \<^verbatim>\<open>name = "Alice"\<close> (string) and \<^verbatim>\<open>age = 30\<close> (number)
  and the edited rows \<^verbatim>\<open>name = "Bob"\<close> (string) and \<^verbatim>\<open>age = "31"\<close> (number), the save returns
  a document whose value is \<^verbatim>\<open>{"customer":{"name":"Bob","age":31}}\<close>: the text of the
  string row is kept as it is, the text \<^verbatim>\<open>"31"\<close> of the number row becomes the number 31,
  and nothing else changes. The first conjunct parses the document, the second is the
  edit on the parsed value, the third the text that is produced, the fourth the whole
  of \<^verbatim>\<open>handleSave\<close> on the state of the modal, and the last says that the text written
  has the value of the expected document.
\<close>

theorem C1_end_to_end:
  \<open>JSON_parse ''{"customer":{"name":"Alice","age":30}}''
     = Inr (JObj [(''customer'', JObj [(''name'', JStr ''Alice''), (''age'', JNum (mk_dec 30 0))])])
   \<and> editParsed (JObj [(''customer'', JObj [(''name'', JStr ''Alice''), (''age'', JNum (mk_dec 30 0))])])
        [Key ''customer'']
        [\<lparr>key = Some ''name'', val = JStr ''Alice'', type = TyString\<rparr>,
         \<lparr>key = Some ''age'', val = JNum (mk_dec 30 0), type = TyNumber\<rparr>]
        [\<lparr>key = Some ''name'', val = JStr ''Bob'', type = TyString\<rparr>,
         \<lparr>key = Some ''age'', val = JStr ''31'', type = TyNumber\<rparr>]
     = Inr (JObj [(''customer'', JObj [(''name'', JStr ''Bob''), (''age'', JNum (mk_dec 31 0))])])
   \<and> applyEdits ''{"customer":{"name":"Alice","age":30}}''
        [Key ''customer'']
        [\<lparr>key = Some ''name'', val = JStr ''Alice'', type = TyString\<rparr>,
         \<lparr>key = Some ''age'', val = JNum (mk_dec 30 0), type = TyNumber\<rparr>]
        [\<lparr>key = Some ''name'', val = JStr ''Bob'', type = TyString\<rparr>,
         \<lparr>key = Some ''age'', val = JStr ''31'', type = TyNumber\<rparr>]
     = Inr ''{\<newline>  "customer": {\<newline>    "name": "Bob",\<newline>    "age": 31\<newline>  }\<newline>}''
   \<and> handleSave \<lparr>json = ''{"customer":{"name":"Alice","age":30}}'',
        nodeData = Some \<lparr>node_id = ''2'',
          node_text = [\<lparr>key = Some ''name'', val = JStr ''Alice'', type = TyString\<rparr>,
                       \<lparr>key = Some ''age'', val = JNum (mk_dec 30 0), type = TyNumber\<rparr>],
          node_path = Some [Key ''customer'']\<rparr>,
        rows = [\<lparr>key = Some ''name'', val = JStr ''Bob'', type = TyString\<rparr>,
                \<lparr>key = Some ''age'', val = JStr ''31'', type = TyNumber\<rparr>],
        editing = True, contents = ''{"customer":{"name":"Alice","age":30}}'', hasChanges = False\<rparr>
   = \<lparr>json = ''{"customer":{"name":"Alice","age":30}}'',
        nodeData = Some \<lparr>node_id = ''2'',
          node_text = [\<lparr>key = Some ''name'', val = JStr ''Alice'', type = TyString\<rparr>,
                       \<lparr>key = Some ''age'', val = JNum (mk_dec 30 0), type = TyNumber\<rparr>],
          node_path = Some [Key ''customer'']\<rparr>,
        rows = [\<lparr>key = Some ''name'', val = JStr ''Bob'', type = TyString\<rparr>,
                \<lparr>key = Some ''age'', val = JStr ''31'', type = TyNumber\<rparr>],
        editing = False,
        contents = ''{\<newline>  "customer": {\<newline>    "name": "Bob",\<newline>    "age": 31\<newline>  }\<newline>}'',
        hasChanges = True\<rparr>
   \<and> JSON_parse ''{\<newline>  "customer": {\<newline>    "name": "Bob",\<newline>    "age": 31\<newline>  }\<newline>}''
     = JSON_parse ''{"customer":{"name":"Bob","age":31}}''\<close>
  by (simp add: eval_defs)






text \<open>
  C4 does not hold of the program. The claim is that a save with the edited rows equal
  to the original rows leaves the value of the document as it was. A row of type
  \<^verbatim>\<open>object\<close> (or \<^verbatim>\<open>array\<close>) is not skipped by the loop: whatever its raw value \<open>x\<close> is, the
  nested object stored under its key is replaced by the string \<^verbatim>\<open>String(x)\<close>. For the
  document \<^verbatim>\<open>{"a":{"b":1}}\<close> and the one row of its root the result is
  \<^verbatim>\<open>{"a":"[object Object]"}\<close>.
\<close>

theorem C4_nested_row_overwritten:
  \<open>editParsed (JObj [(''a'', JObj [(''b'', JNum (mk_dec 1 0))])]) []
      [\<lparr>key = Some ''a'', val = x, type = TyObject\<rparr>]
      [\<lparr>key = Some ''a'', val = x, type = TyObject\<rparr>]
    = Inr (JObj [(''a'', JStr (String x))])
   \<and> editParsed (JObj [(''a'', JObj [(''b'', JNum (mk_dec 1 0))])]) []
      [\<lparr>key = Some ''a'', val = JObj [(''b'', JNum (mk_dec 1 0))], type = TyObject\<rparr>]
      [\<lparr>key = Some ''a'', val = JObj [(''b'', JNum (mk_dec 1 0))], type = TyObject\<rparr>]
    = Inr (JObj [(''a'', JStr ''[object Object]'')])\<close>
proof -
  have \<open>editParsed (JObj [(''a'', JObj [(''b'', JNum (mk_dec 1 0))])]) []
      [\<lparr>key = Some ''a'', val = y, type = TyObject\<rparr>]
      [\<lparr>key = Some ''a'', val = y, type = TyObject\<rparr>]
    = Inr (JObj [(''a'', JStr (String y))])\<close> for y
    by (simp add: editParsed_def objToEdit_def save_row_JObj has_key_def convertValueByType_def obj_set_def)
  from this[of x] this[of "JObj [(''b'', JNum (mk_dec 1 0))]"] show ?thesis
    by simp
qed














end
